theory Spec2Isabelle
  imports Main
begin

section \<open>Data model\<close>

text \<open>
  Objects of the program that are compared by identity or mutated after creation
  (elements, text nodes, descriptors, registry entries, part handles, attribute maps)
  are addressed by a reference; references are handed out from one counter.
\<close>

type_synonym ref = nat

text \<open>A part: \<open>{ css, media, sourceMap }\<close>. The source map is \<open>undefined\<close> or a string.\<close>

record part =
  css :: string
  media :: string
  sourceMap :: "string option"

text \<open>An input tuple \<open>[id, css, media, sourceMap]\<close>.\<close>

type_synonym item = "int \<times> string \<times> string \<times> string option"

text \<open>
  A style-module descriptor \<open>{ id, parts }\<close>. The registry compares descriptors with
  \<open>===\<close>, so the descriptor carries the address of its object.
\<close>

record style =
  style_ref :: ref
  style_id :: int
  parts :: "part list"

text \<open>A registry entry \<open>{ id, refs, parts }\<close>; its parts are part handles.\<close>

record StyleInDOM =
  dom_id :: int
  refs :: int
  dom_parts :: "ref list"

text \<open>
  The options object. Every field may be \<open>undefined\<close>; \<open>attrs\<close> refers to an
  attribute map that the element constructors mutate.
\<close>

record options =
  convertToAbsoluteUrls :: "bool option"
  singleton :: "bool option"
  attrs :: "ref option"
  insertInto :: "string option"
  insertAt :: "string option"

text \<open>
  A part handle is the closure \<open>updateStyle\<close> returned by \<open>addStyle\<close>. It captures the
  strategy chosen at creation (with the element and, in singleton mode, the slot index),
  the last applied part \<open>obj\<close> and the options.
\<close>

datatype strategy = SingletonTag ref nat | LinkTag ref | StyleTag ref

record handle =
  strategy :: strategy
  obj :: part
  handle_options :: options

text \<open>The closure \<open>update\<close> returned by the entry point captures \<open>styles\<close> and \<open>options\<close>.\<close>

record updater =
  closure_styles :: "style list"
  closure_options :: options

datatype error =
  StyleTargetNotFound
  | InvalidInsertAt
  | NonBrowserEnvironment
  | TypeError
  | NotFoundError

text \<open>
  What the program reads from its environment: the \<open>DEBUG\<close> global, whether
  \<open>typeof document\<close> is \<open>"object"\<close>, the outcome of the old-IE test, the answer of
  \<open>document.querySelector\<close> for a selector, whether a created style element carries a
  \<open>styleSheet\<close> object, whether \<open>URL\<close>, \<open>URL.createObjectURL\<close>, \<open>URL.revokeObjectURL\<close>,
  \<open>Blob\<close> and \<open>btoa\<close> are all functions, the URL fixer, and the base64 text of a
  source map.
\<close>

record env =
  DEBUG :: bool
  documentObject :: bool
  oldIE :: bool
  querySelector :: "string \<Rightarrow> ref option"
  styleSheetSupport :: bool
  blobSupport :: bool
  fixUrls :: "string \<Rightarrow> string"
  encodeSourceMap :: "string \<Rightarrow> string"

text \<open>
  The state: the allocation counter, the module-level variables of \<open>addStyles.js\<close>
  (the registry's \<open>cache\<close>, the two memos, the singleton element and counter, the list of
  elements inserted at top, the \<open>textStore\<close> of \<open>replaceText\<close>), the objects on the heap,
  the document tree, and the object URLs that are currently valid.
  An \<open>href\<close> of \<open>None\<close> is the empty string; an object URL is identified by a number.
\<close>

record state =
  nextRef :: ref
  cache :: "int \<Rightarrow> (ref \<times> ref) list option"
  isOldIE_memo :: "bool option"
  getElement_memo :: "string \<Rightarrow> ref option option"
  singletonElement :: "ref option"
  singletonCounter :: nat
  styleElementsInsertedAtTop :: "ref list"
  textStore :: "string option list"
  domStyles :: "ref \<Rightarrow> StyleInDOM"
  handles :: "ref \<Rightarrow> handle"
  attrsObj :: "ref \<Rightarrow> (string \<times> string) list"
  parentNode :: "ref \<Rightarrow> ref option"
  childNodes :: "ref \<Rightarrow> ref list"
  nodeValue :: "ref \<Rightarrow> string"
  tagName :: "ref \<Rightarrow> string"
  attributes :: "ref \<Rightarrow> (string \<times> string) list"
  styleSheet :: "ref \<Rightarrow> string option"
  href :: "ref \<Rightarrow> nat option"
  nextUrl :: nat
  objectUrls :: "nat \<Rightarrow> string option"

section \<open>Grouping the input list\<close>

text \<open>
  \<open>listToStyles\<close>: \<open>newStyles[id]\<close> is the descriptor object pushed on \<open>result\<close> for that
  id, here the position of that object in \<open>result\<close>. The object created for position
  \<open>k\<close> gets the address \<open>base + k\<close>.
\<close>

fun push_part :: "nat \<Rightarrow> part \<Rightarrow> style list \<Rightarrow> style list" where
  "push_part k p [] = []"
| "push_part 0 p (s # ss) = s\<lparr>parts := parts s @ [p]\<rparr> # ss"
| "push_part (Suc k) p (s # ss) = s # push_part k p ss"

fun listToStyles_loop ::
  "ref \<Rightarrow> item list \<Rightarrow> style list \<Rightarrow> (int \<Rightarrow> nat option) \<Rightarrow> style list" where
  "listToStyles_loop base [] result newStyles = result"
| "listToStyles_loop base ((i, c, m, sm) # rest) result newStyles =
     (let p = \<lparr>css = c, media = m, sourceMap = sm\<rparr> in
      case newStyles i of
        None \<Rightarrow>
          listToStyles_loop base rest
            (result @ [\<lparr>style_ref = base + length result, style_id = i, parts = [p]\<rparr>])
            (newStyles(i \<mapsto> length result))
      | Some k \<Rightarrow> listToStyles_loop base rest (push_part k p result) newStyles)"

definition listToStyles :: "ref \<Rightarrow> item list \<Rightarrow> style list" where
  "listToStyles base list = listToStyles_loop base list [] Map.empty"

text \<open>
  The grouping as the specification words it: the distinct ids in first-seen order, each
  with the parts of its tuples in input order.
\<close>

fun first_seen :: "int list \<Rightarrow> int list" where
  "first_seen [] = []"
| "first_seen (x # xs) = x # removeAll x (first_seen xs)"

definition part_of :: "item \<Rightarrow> part" where
  "part_of it = (case it of (i, c, m, sm) \<Rightarrow> \<lparr>css = c, media = m, sourceMap = sm\<rparr>)"

definition grouped_spec :: "item list \<Rightarrow> (int \<times> part list) list" where
  "grouped_spec list =
     map (\<lambda>i. (i, map part_of (filter (\<lambda>it. fst it = i) list))) (first_seen (map fst list))"

section \<open>The registry \<open>stylesInDom\<close>\<close>

text \<open>
  \<open>cache[id]\<close> is an array of pairs \<open>[descriptor, entry]\<close>. \<open>get\<close> returns the entry of
  the first pair whose descriptor is the given object, \<open>set\<close> overwrites that pair or
  pushes a new one, \<open>delete\<close> filters a local copy of the array and removes
  \<open>cache[id]\<close> only when nothing is left in the copy.
\<close>

definition stylesInDom_get :: "state \<Rightarrow> style \<Rightarrow> ref option" where
  "stylesInDom_get st s =
     (case cache st (style_id s) of
        None \<Rightarrow> None
      | Some existing \<Rightarrow>
          (case map snd (filter (\<lambda>pr. fst pr = style_ref s) existing) of
             [] \<Rightarrow> None
           | d # _ \<Rightarrow> Some d))"

fun set_pair :: "ref \<Rightarrow> ref \<Rightarrow> (ref \<times> ref) list \<Rightarrow> (ref \<times> ref) list" where
  "set_pair s d [] = [(s, d)]"
| "set_pair s d (pr # prs) = (if fst pr = s then (s, d) # prs else pr # set_pair s d prs)"

definition stylesInDom_set :: "style \<Rightarrow> ref \<Rightarrow> state \<Rightarrow> state" where
  "stylesInDom_set s domStyle st =
     (case cache st (style_id s) of
        None \<Rightarrow> st\<lparr>cache := (cache st)(style_id s \<mapsto> [(style_ref s, domStyle)])\<rparr>
      | Some existing \<Rightarrow>
          st\<lparr>cache := (cache st)(style_id s \<mapsto> set_pair (style_ref s) domStyle existing)\<rparr>)"

definition stylesInDom_delete :: "ref \<Rightarrow> state \<Rightarrow> state" where
  "stylesInDom_delete domStyle st =
     (let i = dom_id (domStyles st domStyle) in
      case cache st i of
        None \<Rightarrow> st\<lparr>cache := (cache st)(i := None)\<rparr>
      | Some existing \<Rightarrow>
          if filter (\<lambda>pr. snd pr \<noteq> domStyle) existing = []
          then st\<lparr>cache := (cache st)(i := None)\<rparr>
          else st)"

section \<open>The document\<close>

text \<open>
  The tree operations of the DOM that the program calls. Inserting a node first takes it
  out of its present parent; \<open>insertBefore\<close> and \<open>removeChild\<close> throw when the
  reference child is not a child of the receiver; \<open>insertBefore\<close> with no reference
  child appends.
\<close>

definition detach :: "ref \<Rightarrow> state \<Rightarrow> state" where
  "detach n st =
     (case parentNode st n of
        None \<Rightarrow> st
      | Some p \<Rightarrow>
          st\<lparr>parentNode := (parentNode st)(n := None),
             childNodes := (childNodes st)(p := remove1 n (childNodes st p))\<rparr>)"

definition appendChild :: "ref \<Rightarrow> ref \<Rightarrow> state \<Rightarrow> state" where
  "appendChild p n st =
     (let st1 = detach n st in
      st1\<lparr>parentNode := (parentNode st1)(n \<mapsto> p),
          childNodes := (childNodes st1)(p := childNodes st1 p @ [n])\<rparr>)"

fun insert_before :: "ref \<Rightarrow> ref \<Rightarrow> ref list \<Rightarrow> ref list" where
  "insert_before c n [] = [n]"
| "insert_before c n (x # xs) = (if x = c then n # x # xs else x # insert_before c n xs)"

definition insertBefore :: "ref \<Rightarrow> ref \<Rightarrow> ref option \<Rightarrow> state \<Rightarrow> error + state" where
  "insertBefore p n r st =
     (case r of
        None \<Rightarrow> Inr (appendChild p n st)
      | Some c \<Rightarrow>
          if parentNode st c \<noteq> Some p then Inl NotFoundError
          else
            (let st1 = detach n st in
             Inr (st1\<lparr>parentNode := (parentNode st1)(n \<mapsto> p),
                      childNodes := (childNodes st1)(p := insert_before c n (childNodes st1 p))\<rparr>)))"

definition removeChild :: "ref \<Rightarrow> ref \<Rightarrow> state \<Rightarrow> error + state" where
  "removeChild p c st =
     (if parentNode st c \<noteq> Some p then Inl NotFoundError else Inr (detach c st))"

definition firstChild :: "state \<Rightarrow> ref \<Rightarrow> ref option" where
  "firstChild st p = (case childNodes st p of [] \<Rightarrow> None | c # _ \<Rightarrow> Some c)"

fun after :: "ref \<Rightarrow> ref list \<Rightarrow> ref option" where
  "after n [] = None"
| "after n [x] = None"
| "after n (x # y # ys) = (if x = n then Some y else after n (y # ys))"

definition nextSibling :: "state \<Rightarrow> ref \<Rightarrow> ref option" where
  "nextSibling st n =
     (case parentNode st n of None \<Rightarrow> None | Some p \<Rightarrow> after n (childNodes st p))"

text \<open>\<open>childNodes[index]\<close>, \<open>undefined\<close> beyond the end.\<close>

fun item_at :: "'a list \<Rightarrow> nat \<Rightarrow> 'a option" where
  "item_at [] k = None"
| "item_at (x # xs) 0 = Some x"
| "item_at (x # xs) (Suc k) = item_at xs k"

text \<open>
  \<open>document.createElement\<close> and \<open>document.createTextNode\<close> return a new node without
  parent, children, attributes or href. A new style element has a \<open>styleSheet\<close> object
  exactly in the environments that provide one.
\<close>

definition createElement :: "env \<Rightarrow> string \<Rightarrow> state \<Rightarrow> ref \<times> state" where
  "createElement e tag st =
     (let el = nextRef st in
      (el, st\<lparr>nextRef := Suc el,
              parentNode := (parentNode st)(el := None),
              childNodes := (childNodes st)(el := []),
              nodeValue := (nodeValue st)(el := []),
              tagName := (tagName st)(el := tag),
              attributes := (attributes st)(el := []),
              styleSheet := (styleSheet st)
                 (el := if tag = ''style'' \<and> styleSheetSupport e then Some [] else None),
              href := (href st)(el := None)\<rparr>))"

definition createTextNode :: "string \<Rightarrow> state \<Rightarrow> ref \<times> state" where
  "createTextNode txt st =
     (let t = nextRef st in
      (t, st\<lparr>nextRef := Suc t,
             parentNode := (parentNode st)(t := None),
             childNodes := (childNodes st)(t := []),
             nodeValue := (nodeValue st)(t := txt),
             tagName := (tagName st)(t := ''#text''),
             attributes := (attributes st)(t := []),
             styleSheet := (styleSheet st)(t := None),
             href := (href st)(t := None)\<rparr>))"

text \<open>An attribute map keeps its keys in insertion order; writing a key keeps its place.\<close>

fun put_attr :: "string \<Rightarrow> string \<Rightarrow> (string \<times> string) list \<Rightarrow> (string \<times> string) list" where
  "put_attr k v [] = [(k, v)]"
| "put_attr k v (kv # kvs) = (if fst kv = k then (k, v) # kvs else kv # put_attr k v kvs)"

definition setAttribute :: "ref \<Rightarrow> string \<Rightarrow> string \<Rightarrow> state \<Rightarrow> state" where
  "setAttribute el k v st = st\<lparr>attributes := (attributes st)(el := put_attr k v (attributes st el))\<rparr>"

text \<open>The text an element shows: the data of its child text nodes, in order.\<close>

definition textContent :: "state \<Rightarrow> ref \<Rightarrow> string" where
  "textContent st el = concat (map (nodeValue st) (childNodes st el))"

section \<open>Object URLs\<close>

definition createObjectURL :: "string \<Rightarrow> state \<Rightarrow> nat \<times> state" where
  "createObjectURL blob st =
     (let u = nextUrl st in
      (u, st\<lparr>nextUrl := Suc u, objectUrls := (objectUrls st)(u \<mapsto> blob)\<rparr>))"

definition revokeObjectURL :: "nat \<Rightarrow> state \<Rightarrow> state" where
  "revokeObjectURL u st = st\<lparr>objectUrls := (objectUrls st)(u := None)\<rparr>"

section \<open>Memoized environment probes\<close>

definition isOldIE :: "env \<Rightarrow> state \<Rightarrow> bool \<times> state" where
  "isOldIE e st =
     (case isOldIE_memo st of
        None \<Rightarrow> (oldIE e, st\<lparr>isOldIE_memo := Some (oldIE e)\<rparr>)
      | Some b \<Rightarrow> (b, st))"

definition getElement :: "env \<Rightarrow> string \<Rightarrow> state \<Rightarrow> ref option \<times> state" where
  "getElement e selector st =
     (case getElement_memo st selector of
        None \<Rightarrow>
          (querySelector e selector,
           st\<lparr>getElement_memo := (getElement_memo st)(selector \<mapsto> querySelector e selector)\<rparr>)
      | Some r \<Rightarrow> (r, st))"

section \<open>Inserting and removing elements\<close>

definition selector_of :: "string option \<Rightarrow> string" where
  "selector_of s = (case s of None \<Rightarrow> ''undefined'' | Some sel \<Rightarrow> sel)"

definition last_of :: "ref list \<Rightarrow> ref option" where
  "last_of xs = (case rev xs of [] \<Rightarrow> None | x # _ \<Rightarrow> Some x)"

definition insertStyleElement :: "env \<Rightarrow> options \<Rightarrow> ref \<Rightarrow> state \<Rightarrow> error + state" where
  "insertStyleElement e opts styleElement st =
     (case getElement e (selector_of (insertInto opts)) st of
        (None, st1) \<Rightarrow> Inl StyleTargetNotFound
      | (Some styleTarget, st1) \<Rightarrow>
          (let lastStyleElementInsertedAtTop = last_of (styleElementsInsertedAtTop st1) in
           if insertAt opts = Some ''top'' then
             (case (case lastStyleElementInsertedAtTop of
                      None \<Rightarrow> insertBefore styleTarget styleElement (firstChild st1 styleTarget) st1
                    | Some l \<Rightarrow>
                        (case nextSibling st1 l of
                           Some n \<Rightarrow> insertBefore styleTarget styleElement (Some n) st1
                         | None \<Rightarrow> Inr (appendChild styleTarget styleElement st1))) of
                Inl err \<Rightarrow> Inl err
              | Inr st2 \<Rightarrow>
                  Inr (st2\<lparr>styleElementsInsertedAtTop :=
                             styleElementsInsertedAtTop st2 @ [styleElement]\<rparr>))
           else if insertAt opts = Some ''bottom'' then
             Inr (appendChild styleTarget styleElement st1)
           else Inl InvalidInsertAt))"

definition removeStyleElement :: "ref \<Rightarrow> state \<Rightarrow> error + state" where
  "removeStyleElement styleElement st =
     (case parentNode st styleElement of
        None \<Rightarrow> Inl TypeError
      | Some p \<Rightarrow>
          (case removeChild p styleElement st of
             Inl err \<Rightarrow> Inl err
           | Inr st1 \<Rightarrow>
               Inr (st1\<lparr>styleElementsInsertedAtTop :=
                          remove1 styleElement (styleElementsInsertedAtTop st1)\<rparr>)))"

definition attachTagAttrs :: "ref \<Rightarrow> (string \<times> string) list \<Rightarrow> state \<Rightarrow> state" where
  "attachTagAttrs element as st = fold (\<lambda>kv. setAttribute element (fst kv) (snd kv)) as st"

definition createStyleElement :: "env \<Rightarrow> options \<Rightarrow> state \<Rightarrow> error + (ref \<times> state)" where
  "createStyleElement e opts st =
     (case createElement e ''style'' st of
        (styleElement, st1) \<Rightarrow>
          (case attrs opts of
             None \<Rightarrow> Inl TypeError
           | Some a \<Rightarrow>
               (let st2 = st1\<lparr>attrsObj := (attrsObj st1)
                                (a := put_attr ''type'' ''text/css'' (attrsObj st1 a))\<rparr>;
                    st3 = attachTagAttrs styleElement (attrsObj st2 a) st2
                in case insertStyleElement e opts styleElement st3 of
                     Inl err \<Rightarrow> Inl err
                   | Inr st4 \<Rightarrow> Inr (styleElement, st4))))"

definition createLinkElement :: "env \<Rightarrow> options \<Rightarrow> state \<Rightarrow> error + (ref \<times> state)" where
  "createLinkElement e opts st =
     (case createElement e ''link'' st of
        (linkElement, st1) \<Rightarrow>
          (case attrs opts of
             None \<Rightarrow> Inl TypeError
           | Some a \<Rightarrow>
               (let st2 = st1\<lparr>attrsObj := (attrsObj st1)
                                (a := put_attr ''rel'' ''stylesheet''
                                        (put_attr ''type'' ''text/css'' (attrsObj st1 a)))\<rparr>;
                    st3 = attachTagAttrs linkElement (attrsObj st2 a) st2
                in case insertStyleElement e opts linkElement st3 of
                     Inl err \<Rightarrow> Inl err
                   | Inr st4 \<Rightarrow> Inr (linkElement, st4))))"

section \<open>The three update strategies\<close>

text \<open>A value used as a condition: \<open>undefined\<close> and the empty string are falsy.\<close>

definition truthy :: "string option \<Rightarrow> bool" where
  "truthy v = (case v of None \<Rightarrow> False | Some s \<Rightarrow> s \<noteq> [])"

text \<open>
  \<open>replaceText\<close>: \<open>textStore[index] = replacement\<close> (an assignment beyond the end leaves
  holes), then \<open>textStore.filter(Boolean).join('\n')\<close>.
\<close>

definition store_at :: "nat \<Rightarrow> string \<Rightarrow> string option list \<Rightarrow> string option list" where
  "store_at index replacement ts =
     (if index < length ts then ts[index := Some replacement]
      else ts @ replicate (index - length ts) None @ [Some replacement])"

fun join_lines :: "string list \<Rightarrow> string" where
  "join_lines [] = []"
| "join_lines [x] = x"
| "join_lines (x # y # ys) = x @ [CHR 0x0A] @ join_lines (y # ys)"

fun filter_Boolean :: "string option list \<Rightarrow> string list" where
  "filter_Boolean [] = []"
| "filter_Boolean (None # ts) = filter_Boolean ts"
| "filter_Boolean (Some s # ts) = (if s = [] then filter_Boolean ts else s # filter_Boolean ts)"

definition replaceText :: "nat \<Rightarrow> string \<Rightarrow> state \<Rightarrow> string \<times> state" where
  "replaceText index replacement st =
     (let ts = store_at index replacement (textStore st) in
      (join_lines (filter_Boolean ts), st\<lparr>textStore := ts\<rparr>))"

definition applyToSingletonTag ::
  "ref \<Rightarrow> nat \<Rightarrow> bool \<Rightarrow> part option \<Rightarrow> state \<Rightarrow> error + state" where
  "applyToSingletonTag styleElement index remove ob st =
     (case (if remove then Inr [] else (case ob of None \<Rightarrow> Inl TypeError | Some p \<Rightarrow> Inr (css p))) of
        Inl err \<Rightarrow> Inl err
      | Inr c \<Rightarrow>
          (case styleSheet st styleElement of
             Some old \<Rightarrow>
               (case replaceText index c st of
                  (txt, st1) \<Rightarrow> Inr (st1\<lparr>styleSheet := (styleSheet st1)(styleElement \<mapsto> txt)\<rparr>))
           | None \<Rightarrow>
               (case createTextNode c st of
                  (cssNode, st1) \<Rightarrow>
                    (case (case item_at (childNodes st1 styleElement) index of
                             Some old \<Rightarrow> removeChild styleElement old st1
                           | None \<Rightarrow> Inr st1) of
                       Inl err \<Rightarrow> Inl err
                     | Inr st2 \<Rightarrow>
                         if childNodes st2 styleElement \<noteq> [] then
                           insertBefore styleElement cssNode
                             (item_at (childNodes st2 styleElement) index) st2
                         else Inr (appendChild styleElement cssNode st2)))))"

text \<open>The loop \<open>while (styleElement.firstChild) styleElement.removeChild(...)\<close>.\<close>

function removeChildren :: "ref \<Rightarrow> state \<Rightarrow> error + state" where
  "removeChildren el st =
     (case firstChild st el of
        None \<Rightarrow> Inr st
      | Some c \<Rightarrow>
          (case removeChild el c st of
             Inl err \<Rightarrow> Inl err
           | Inr st1 \<Rightarrow> removeChildren el st1))"
  by pat_completeness auto
termination
proof (relation "measure (\<lambda>(el, st). length (childNodes st el))")
  show "wf (measure (\<lambda>(el, st). length (childNodes st el)))" by simp
next
  fix el :: ref and st st1 :: state and c :: ref
  assume fc: "firstChild st el = Some c" and rc: "removeChild el c st = Inr st1"
  from fc obtain cs where cs: "childNodes st el = c # cs"
    by (auto simp: firstChild_def split: list.splits)
  from rc have "parentNode st c = Some el" and "st1 = detach c st"
    by (auto simp: removeChild_def split: if_splits)
  then have "childNodes st1 el = cs"
    by (simp add: detach_def cs)
  then show "((el, st1), (el, st)) \<in> measure (\<lambda>(el, st). length (childNodes st el))"
    by (simp add: cs)
qed

declare removeChildren.simps [simp del]

definition applyToTag :: "ref \<Rightarrow> part \<Rightarrow> state \<Rightarrow> error + state" where
  "applyToTag styleElement ob st =
     (let st1 = (if media ob \<noteq> [] then setAttribute styleElement ''media'' (media ob) st else st) in
      case styleSheet st1 styleElement of
        Some old \<Rightarrow> Inr (st1\<lparr>styleSheet := (styleSheet st1)(styleElement \<mapsto> css ob)\<rparr>)
      | None \<Rightarrow>
          (case removeChildren styleElement st1 of
             Inl err \<Rightarrow> Inl err
           | Inr st2 \<Rightarrow>
               (case createTextNode (css ob) st2 of
                  (t, st3) \<Rightarrow> Inr (appendChild styleElement t st3))))"

text \<open>
  \<open>updateLink\<close>. The text packed into the blob, and whether the URL fixer runs on it;
  then the states after each of its three effects: the object URL is created, it is
  assigned to \<open>href\<close>, the old \<open>href\<close> is revoked when there was one.
\<close>

definition autoFixUrls :: "options \<Rightarrow> part \<Rightarrow> bool" where
  "autoFixUrls opts ob \<longleftrightarrow> convertToAbsoluteUrls opts = None \<and> truthy (sourceMap ob)"

definition appliesFixUrls :: "options \<Rightarrow> part \<Rightarrow> bool" where
  "appliesFixUrls opts ob \<longleftrightarrow> convertToAbsoluteUrls opts = Some True \<or> autoFixUrls opts ob"

definition sourceMappingComment :: "env \<Rightarrow> string option \<Rightarrow> string" where
  "sourceMappingComment e sm =
     (case sm of
        None \<Rightarrow> []
      | Some m \<Rightarrow>
          if m = [] then []
          else [CHR 0x0A] @ ''/*# sourceMappingURL=data:application/json;base64,''
               @ encodeSourceMap e m @ '' */'')"

definition linkCss :: "env \<Rightarrow> options \<Rightarrow> part \<Rightarrow> string" where
  "linkCss e opts ob =
     (if appliesFixUrls opts ob then fixUrls e (css ob) else css ob)
     @ sourceMappingComment e (sourceMap ob)"

definition updateLink_steps :: "env \<Rightarrow> ref \<Rightarrow> options \<Rightarrow> part \<Rightarrow> state \<Rightarrow> state list" where
  "updateLink_steps e linkElement opts ob st =
     (let oldSrc = href st linkElement in
      case createObjectURL (linkCss e opts ob) st of
        (u, st1) \<Rightarrow>
          (let st2 = st1\<lparr>href := (href st1)(linkElement \<mapsto> u)\<rparr>;
               st3 = (case oldSrc of None \<Rightarrow> st2 | Some old \<Rightarrow> revokeObjectURL old st2)
           in [st1, st2, st3]))"

definition updateLink :: "env \<Rightarrow> ref \<Rightarrow> options \<Rightarrow> part \<Rightarrow> state \<Rightarrow> state" where
  "updateLink e linkElement opts ob st = last (updateLink_steps e linkElement opts ob st)"

section \<open>Part handles\<close>

text \<open>The \<open>update\<close> and \<open>remove\<close> functions that \<open>addStyle\<close> binds for each strategy.\<close>

fun update_part :: "env \<Rightarrow> strategy \<Rightarrow> options \<Rightarrow> part \<Rightarrow> state \<Rightarrow> error + state" where
  "update_part e (SingletonTag el index) opts ob st = applyToSingletonTag el index False (Some ob) st"
| "update_part e (LinkTag el) opts ob st = Inr (updateLink e el opts ob st)"
| "update_part e (StyleTag el) opts ob st = applyToTag el ob st"

fun remove_part :: "strategy \<Rightarrow> state \<Rightarrow> error + state" where
  "remove_part (SingletonTag el index) st = applyToSingletonTag el index True None st"
| "remove_part (LinkTag el) st =
     (case removeStyleElement el st of
        Inl err \<Rightarrow> Inl err
      | Inr st1 \<Rightarrow>
          (case href st1 el of
             None \<Rightarrow> Inr st1
           | Some u \<Rightarrow> Inr (revokeObjectURL u st1)))"
| "remove_part (StyleTag el) st = removeStyleElement el st"

text \<open>
  \<open>addStyle\<close> chooses the strategy, applies the part once and returns the new handle.
\<close>

definition choose_strategy :: "env \<Rightarrow> part \<Rightarrow> options \<Rightarrow> state \<Rightarrow> error + (strategy \<times> state)" where
  "choose_strategy e ob opts st =
     (if singleton opts = Some True then
        (let styleIndex = singletonCounter st;
             st1 = st\<lparr>singletonCounter := Suc styleIndex\<rparr>
         in case singletonElement st1 of
              Some el \<Rightarrow> Inr (SingletonTag el styleIndex, st1)
            | None \<Rightarrow>
                (case createStyleElement e opts st1 of
                   Inl err \<Rightarrow> Inl err
                 | Inr (el, st2) \<Rightarrow>
                     Inr (SingletonTag el styleIndex, st2\<lparr>singletonElement := Some el\<rparr>)))
      else if truthy (sourceMap ob) \<and> blobSupport e then
        (case createLinkElement e opts st of
           Inl err \<Rightarrow> Inl err
         | Inr (el, st1) \<Rightarrow> Inr (LinkTag el, st1))
      else
        (case createStyleElement e opts st of
           Inl err \<Rightarrow> Inl err
         | Inr (el, st1) \<Rightarrow> Inr (StyleTag el, st1)))"

definition addStyle :: "env \<Rightarrow> part \<Rightarrow> options \<Rightarrow> state \<Rightarrow> error + (ref \<times> state)" where
  "addStyle e ob opts st =
     (case choose_strategy e ob opts st of
        Inl err \<Rightarrow> Inl err
      | Inr (strat, st1) \<Rightarrow>
          (case update_part e strat opts ob st1 of
             Inl err \<Rightarrow> Inl err
           | Inr st2 \<Rightarrow>
               (let h = nextRef st2 in
                Inr (h, st2\<lparr>nextRef := Suc h,
                           handles := (handles st2)
                             (h := \<lparr>strategy = strat, obj = ob, handle_options = opts\<rparr>)\<rparr>))))"

text \<open>Calling a handle: \<open>updateStyle(newObj)\<close>, with \<open>None\<close> for no argument.\<close>

definition same_fields :: "part \<Rightarrow> part \<Rightarrow> bool" where
  "same_fields a b \<longleftrightarrow> css a = css b \<and> media a = media b \<and> sourceMap a = sourceMap b"

definition updateStyle :: "env \<Rightarrow> ref \<Rightarrow> part option \<Rightarrow> state \<Rightarrow> error + state" where
  "updateStyle e h newObj st =
     (let c = handles st h in
      case newObj of
        Some n \<Rightarrow>
          if same_fields n (obj c) then Inr st
          else update_part e (strategy c) (handle_options c) n
                 (st\<lparr>handles := (handles st)(h := c\<lparr>obj := n\<rparr>)\<rparr>)
      | None \<Rightarrow> remove_part (strategy c) st)"

section \<open>The entry point and its update closure\<close>

text \<open>
  The loops of \<open>addStylesToDom\<close>: calling the handles an entry has with the parts at the
  same positions (\<open>undefined\<close> once the descriptor has no more), and adding a handle for
  every part of a list.
\<close>

fun call_parts :: "env \<Rightarrow> ref list \<Rightarrow> part list \<Rightarrow> state \<Rightarrow> error + state" where
  "call_parts e [] ps st = Inr st"
| "call_parts e (h # hs) [] st =
     (case updateStyle e h None st of
        Inl err \<Rightarrow> Inl err
      | Inr st1 \<Rightarrow> call_parts e hs [] st1)"
| "call_parts e (h # hs) (p # ps) st =
     (case updateStyle e h (Some p) st of
        Inl err \<Rightarrow> Inl err
      | Inr st1 \<Rightarrow> call_parts e hs ps st1)"

fun add_parts :: "env \<Rightarrow> part list \<Rightarrow> options \<Rightarrow> state \<Rightarrow> error + (ref list \<times> state)" where
  "add_parts e [] opts st = Inr ([], st)"
| "add_parts e (p # ps) opts st =
     (case addStyle e p opts st of
        Inl err \<Rightarrow> Inl err
      | Inr (h, st1) \<Rightarrow>
          (case add_parts e ps opts st1 of
             Inl err \<Rightarrow> Inl err
           | Inr (hs, st2) \<Rightarrow> Inr (h # hs, st2)))"

definition addStyleToDom :: "env \<Rightarrow> options \<Rightarrow> style \<Rightarrow> state \<Rightarrow> error + state" where
  "addStyleToDom e opts s st =
     (case stylesInDom_get st s of
        Some d \<Rightarrow>
          (let st1 = st\<lparr>domStyles := (domStyles st)
                          (d := (domStyles st d)\<lparr>refs := refs (domStyles st d) + 1\<rparr>)\<rparr>
           in case call_parts e (dom_parts (domStyles st1 d)) (parts s) st1 of
                Inl err \<Rightarrow> Inl err
              | Inr st2 \<Rightarrow>
                  (case add_parts e (drop (length (dom_parts (domStyles st2 d))) (parts s)) opts st2 of
                     Inl err \<Rightarrow> Inl err
                   | Inr (hs, st3) \<Rightarrow>
                       Inr (st3\<lparr>domStyles := (domStyles st3)
                                  (d := (domStyles st3 d)
                                     \<lparr>dom_parts := dom_parts (domStyles st3 d) @ hs\<rparr>)\<rparr>)))
      | None \<Rightarrow>
          (case add_parts e (parts s) opts st of
             Inl err \<Rightarrow> Inl err
           | Inr (hs, st1) \<Rightarrow>
               (let d = nextRef st1;
                    st2 = st1\<lparr>nextRef := Suc d,
                              domStyles := (domStyles st1)
                                (d := \<lparr>dom_id = style_id s, refs = 1, dom_parts = hs\<rparr>)\<rparr>
                in Inr (stylesInDom_set s d st2))))"

fun addStylesToDom :: "env \<Rightarrow> style list \<Rightarrow> options \<Rightarrow> state \<Rightarrow> error + state" where
  "addStylesToDom e [] opts st = Inr st"
| "addStylesToDom e (s # ss) opts st =
     (case addStyleToDom e opts s st of
        Inl err \<Rightarrow> Inl err
      | Inr st1 \<Rightarrow> addStylesToDom e ss opts st1)"

definition default_options :: "env \<Rightarrow> options option \<Rightarrow> state \<Rightarrow> options \<times> state" where
  "default_options e options0 st =
     (let opts = (case options0 of
                    None \<Rightarrow> \<lparr>convertToAbsoluteUrls = None, singleton = None, attrs = None,
                              insertInto = None, insertAt = None\<rparr>
                  | Some given \<Rightarrow> given);
          (a, st1) = (case attrs opts of
                        Some a \<Rightarrow> (a, st)
                      | None \<Rightarrow> (nextRef st,
                                  st\<lparr>nextRef := Suc (nextRef st),
                                     attrsObj := (attrsObj st)(nextRef st := [])\<rparr>));
          (sing, st2) = (case singleton opts of
                           None \<Rightarrow> isOldIE e st1
                         | Some b \<Rightarrow> (b, st1))
      in (opts\<lparr>attrs := Some a,
               singleton := Some sing,
               insertInto := Some (case insertInto opts of None \<Rightarrow> ''head'' | Some sel \<Rightarrow> sel),
               insertAt := Some (case insertAt opts of None \<Rightarrow> ''bottom'' | Some pos \<Rightarrow> pos)\<rparr>,
          st2))"

definition install :: "env \<Rightarrow> item list \<Rightarrow> options option \<Rightarrow> state \<Rightarrow> error + (updater \<times> state)" where
  "install e list options0 st =
     (if DEBUG e \<and> \<not> documentObject e then Inl NonBrowserEnvironment
      else
        (case default_options e options0 st of
           (opts, st1) \<Rightarrow>
             (let styles = listToStyles (nextRef st1) list;
                  st2 = st1\<lparr>nextRef := nextRef st1 + length styles\<rparr>
              in case addStylesToDom e styles opts st2 of
                   Inl err \<Rightarrow> Inl err
                 | Inr st3 \<Rightarrow> Inr (\<lparr>closure_styles = styles, closure_options = opts\<rparr>, st3))))"

text \<open>
  The closure \<open>update(newList)\<close>: the first loop decrements and collects \<open>mayRemove\<close>
  (reading \<open>refs\<close> of a descriptor without entry throws), the last loop removes the
  entries whose \<open>refs\<close> is zero.
\<close>

fun decrement_refs :: "style list \<Rightarrow> state \<Rightarrow> error + (ref list \<times> state)" where
  "decrement_refs [] st = Inr ([], st)"
| "decrement_refs (s # ss) st =
     (case stylesInDom_get st s of
        None \<Rightarrow> Inl TypeError
      | Some d \<Rightarrow>
          (case decrement_refs ss
                  (st\<lparr>domStyles := (domStyles st)
                        (d := (domStyles st d)\<lparr>refs := refs (domStyles st d) - 1\<rparr>)\<rparr>) of
             Inl err \<Rightarrow> Inl err
           | Inr (ds, st1) \<Rightarrow> Inr (d # ds, st1)))"

fun remove_unreferenced :: "env \<Rightarrow> ref list \<Rightarrow> state \<Rightarrow> error + state" where
  "remove_unreferenced e [] st = Inr st"
| "remove_unreferenced e (d # ds) st =
     (if refs (domStyles st d) = 0 then
        (case call_parts e (dom_parts (domStyles st d)) [] st of
           Inl err \<Rightarrow> Inl err
         | Inr st1 \<Rightarrow> remove_unreferenced e ds (stylesInDom_delete d st1))
      else remove_unreferenced e ds st)"

definition update :: "env \<Rightarrow> updater \<Rightarrow> item list option \<Rightarrow> state \<Rightarrow> error + state" where
  "update e u newList st =
     (case decrement_refs (closure_styles u) st of
        Inl err \<Rightarrow> Inl err
      | Inr (mayRemove, st1) \<Rightarrow>
          (case (case newList of
                   None \<Rightarrow> Inr st1
                 | Some l \<Rightarrow>
                     (let newStyles = listToStyles (nextRef st1) l;
                          st2 = st1\<lparr>nextRef := nextRef st1 + length newStyles\<rparr>
                      in addStylesToDom e newStyles (closure_options u) st2)) of
             Inl err \<Rightarrow> Inl err
           | Inr st3 \<Rightarrow> remove_unreferenced e mayRemove st3))"

section \<open>A session\<close>

text \<open>
  The state in which the module has just been loaded, over a document given by its
  parent and child links and the first unused reference.
\<close>

definition fresh_session :: "ref \<Rightarrow> (ref \<Rightarrow> ref option) \<Rightarrow> (ref \<Rightarrow> ref list) \<Rightarrow> state" where
  "fresh_session n par kids =
     \<lparr>nextRef = n, cache = Map.empty, isOldIE_memo = None, getElement_memo = Map.empty,
      singletonElement = None, singletonCounter = 0, styleElementsInsertedAtTop = [],
      textStore = [],
      domStyles = (\<lambda>r. \<lparr>dom_id = 0, refs = 0, dom_parts = []\<rparr>),
      handles = (\<lambda>r. \<lparr>strategy = StyleTag 0, obj = \<lparr>css = [], media = [], sourceMap = None\<rparr>,
                        handle_options = \<lparr>convertToAbsoluteUrls = None, singleton = None,
                          attrs = None, insertInto = None, insertAt = None\<rparr>\<rparr>),
      attrsObj = (\<lambda>r. []),
      parentNode = par, childNodes = kids, nodeValue = (\<lambda>r. []), tagName = (\<lambda>r. []),
      attributes = (\<lambda>r. []), styleSheet = (\<lambda>r. None), href = (\<lambda>r. None),
      nextUrl = 0, objectUrls = Map.empty\<rparr>"

text \<open>
  A small document for running the program: node 0 is the head, node 1 its only child;
  the selector \<open>head\<close> resolves to node 0 and no other selector resolves.
\<close>

definition page :: state where
  "page = fresh_session 2 (\<lambda>r. if r = 1 then Some 0 else None) (\<lambda>r. if r = 0 then [1] else [])"

definition browser :: env where
  "browser =
     \<lparr>DEBUG = False, documentObject = True, oldIE = False,
      querySelector = (\<lambda>sel. if sel = ''head'' then Some 0 else None),
      styleSheetSupport = False, blobSupport = True,
      fixUrls = (\<lambda>c. ''/*abs*/'' @ c), encodeSourceMap = (\<lambda>m. m)\<rparr>"

text \<open>What a style element shows: its \<open>styleSheet.cssText\<close> when it has one, else its text.\<close>

definition rendered :: "state \<Rightarrow> ref \<Rightarrow> string" where
  "rendered st el = (case styleSheet st el of Some txt \<Rightarrow> txt | None \<Rightarrow> textContent st el)"

text \<open>Running one operation after another, stopping at the first error.\<close>

definition and_then :: "error + state \<Rightarrow> (state \<Rightarrow> error + state) \<Rightarrow> error + state" where
  "and_then r f = (case r of Inl err \<Rightarrow> Inl err | Inr st \<Rightarrow> f st)"

definition top_options :: options where
  "top_options =
     \<lparr>convertToAbsoluteUrls = None, singleton = Some False, attrs = None,
      insertInto = Some ''head'', insertAt = Some ''top''\<rparr>"

text \<open>Two style elements (nodes 2 and 3) are created, then inserted at top, 2 before 3.\<close>

definition two_elements :: state where
  "two_elements = snd (createElement browser ''style'' (snd (createElement browser ''style'' page)))"

definition two_top_insertions :: "error + state" where
  "two_top_insertions =
     and_then (insertStyleElement browser top_options 2 two_elements)
       (insertStyleElement browser top_options 3)"

section \<open>Auxiliary notions for the proofs\<close>

definition view :: "style list \<Rightarrow> (int \<times> part list) list" where
  "view result = map (\<lambda>s. (style_id s, parts s)) result"

definition merge_item :: "(int \<times> part list) list \<Rightarrow> item \<Rightarrow> (int \<times> part list) list" where
  "merge_item v it =
     (if fst it \<in> fst ` set v
      then map (\<lambda>(j, ps). if j = fst it then (j, ps @ [part_of it]) else (j, ps)) v
      else v @ [(fst it, [part_of it])])"

definition index_inv :: "style list \<Rightarrow> (int \<Rightarrow> nat option) \<Rightarrow> bool" where
  "index_inv result newStyles \<longleftrightarrow>
     distinct (map style_id result) \<and>
     (\<forall>i k. newStyles i = Some k \<longleftrightarrow> k < length result \<and> style_id (result ! k) = i)"



text \<open>A page on which one part with a source map has been installed as a link (node 4).\<close>

definition linked_page :: state where
  "linked_page = snd (projr (install browser [(1, ''a{}'', [], Some ''map'')] None page))"

definition blue_part :: part where
  "blue_part = \<lparr>css = ''a{color:blue}'', media = [], sourceMap = Some ''map''\<rparr>"

text \<open>Parts and requests for running the program.\<close>

definition part_a :: part where
  "part_a = \<lparr>css = ''a{}'', media = [], sourceMap = None\<rparr>"

definition part_b :: part where
  "part_b = \<lparr>css = ''b{}'', media = [], sourceMap = None\<rparr>"

definition singleton_request :: options where
  "singleton_request =
     \<lparr>convertToAbsoluteUrls = None, singleton = Some True, attrs = None,
      insertInto = None, insertAt = None\<rparr>"

definition singleton_options :: options where
  "singleton_options = fst (default_options browser (Some singleton_request) page)"

definition singleton_page :: state where
  "singleton_page = snd (default_options browser (Some singleton_request) page)"

text \<open>Singleton mode: two parts are added; the shared element is node 3.\<close>

definition two_singleton_parts :: "error + (ref list \<times> state)" where
  "two_singleton_parts = add_parts browser [part_a, part_b] singleton_options singleton_page"






text \<open>One inline part is installed and the update closure is called with the same list.\<close>

definition red_list :: "item list" where
  "red_list = [(1, ''a{color:red}'', [], None)]"

definition red_installed :: "error + (updater \<times> state)" where
  "red_installed = install browser red_list None page"

definition red_updated :: "error + state" where
  "red_updated =
     update browser (fst (projr red_installed)) (Some red_list) (snd (projr red_installed))"

text \<open>The element a strategy works on.\<close>

definition element_of :: "strategy \<Rightarrow> ref" where
  "element_of s = (case s of SingletonTag el i \<Rightarrow> el | LinkTag el \<Rightarrow> el | StyleTag el \<Rightarrow> el)"

text \<open>Frames: what the tree operations and the handle calls leave alone.\<close>

definition tree_frame :: "state \<Rightarrow> state \<Rightarrow> bool" where
  "tree_frame st st' \<longleftrightarrow>
     nextRef st' = nextRef st \<and> cache st' = cache st \<and> isOldIE_memo st' = isOldIE_memo st \<and>
     singletonElement st' = singletonElement st \<and> singletonCounter st' = singletonCounter st \<and>
     textStore st' = textStore st \<and> domStyles st' = domStyles st \<and> handles st' = handles st \<and>
     attrsObj st' = attrsObj st \<and> nodeValue st' = nodeValue st \<and> tagName st' = tagName st \<and>
     attributes st' = attributes st \<and> styleSheet st' = styleSheet st \<and> href st' = href st \<and>
     nextUrl st' = nextUrl st \<and> objectUrls st' = objectUrls st"



text \<open>Well-formedness of a session, for the insertions of one target.\<close>

definition resolves :: "env \<Rightarrow> string \<Rightarrow> state \<Rightarrow> ref option" where
  "resolves e sel st = fst (getElement e sel st)"


















text \<open>
  The bookkeeping of a session outside singleton mode. A handle is good when it is
  allocated and its strategy is a style or link element that is allocated and attached.
  The handles \<open>H\<close> account for the session from the addresses \<open>lo\<close> and
  \<open>lou\<close> on: their elements are distinct, every attached node from \<open>lo\<close>
  on is a text node or the element of a handle, no unallocated address has a parent, and
  every live object URL from \<open>lou\<close> on is the \<open>href\<close> of the link of a handle.
  The pairs \<open>L\<close> of descriptor and entry are live: lookup finds the entry, with one
  reference. Insertion targets are allocated nodes.
\<close>

definition elem :: "state \<Rightarrow> ref \<Rightarrow> ref" where
  "elem st h = element_of (strategy (handles st h))"

definition good_handle :: "state \<Rightarrow> ref \<Rightarrow> bool" where
  "good_handle st h \<longleftrightarrow>
     h < nextRef st \<and> elem st h < nextRef st \<and> parentNode st (elem st h) \<noteq> None \<and>
     (strategy (handles st h) = StyleTag (elem st h) \<or> strategy (handles st h) = LinkTag (elem st h))"

definition elements_ok :: "ref \<Rightarrow> nat \<Rightarrow> state \<Rightarrow> ref list \<Rightarrow> bool" where
  "elements_ok lo lou st H \<longleftrightarrow>
     (\<forall>h \<in> set H. good_handle st h) \<and> distinct (map (elem st) H) \<and>
     (\<forall>r. lo \<le> r \<and> parentNode st r \<noteq> None \<longrightarrow> tagName st r = ''#text'' \<or> r \<in> elem st ` set H) \<and>
     (\<forall>r. nextRef st \<le> r \<longrightarrow> parentNode st r = None) \<and>
     (\<forall>u. lou \<le> u \<and> u < nextUrl st \<and> objectUrls st u \<noteq> None \<longrightarrow>
        (\<exists>h \<in> set H. strategy (handles st h) = LinkTag (elem st h) \<and> href st (elem st h) = Some u))"







section \<open>Evaluation\<close>

lemmas run_defs =
  install_def update_def page_def browser_def fresh_session_def default_options_def isOldIE_def
  listToStyles_def addStyleToDom_def stylesInDom_get_def stylesInDom_set_def
  stylesInDom_delete_def addStyle_def choose_strategy_def createStyleElement_def
  createLinkElement_def createElement_def createTextNode_def insertStyleElement_def
  getElement_def selector_of_def last_of_def appendChild_def detach_def attachTagAttrs_def
  setAttribute_def truthy_def applyToTag_def removeChildren.simps firstChild_def updateLink_def
  updateLink_steps_def createObjectURL_def revokeObjectURL_def linkCss_def appliesFixUrls_def
  autoFixUrls_def sourceMappingComment_def Let_def updateStyle_def same_fields_def
  removeStyleElement_def removeChild_def insertBefore_def nextSibling_def
  applyToSingletonTag_def replaceText_def store_at_def and_then_def top_options_def
  two_elements_def two_top_insertions_def rendered_def textContent_def

section \<open>Grouping: first-seen order of ids, input order of parts\<close>

lemma push_part_view:
  "k < length result \<Longrightarrow> distinct (map style_id result) \<Longrightarrow>
   view (push_part k p result) =
     map (\<lambda>(j, ps). if j = style_id (result ! k) then (j, ps @ [p]) else (j, ps)) (view result)"
proof (induction k p result rule: push_part.induct)
  case (1 k p)
  then show ?case by simp
next
  case (2 p s ss)
  then have "\<forall>t \<in> set ss. style_id t \<noteq> style_id s" by (fastforce simp: image_iff)
  then show ?case by (auto simp: view_def)
next
  case (3 k p s ss)
  then have "ss ! k \<in> set ss" "style_id s \<notin> style_id ` set ss" by simp_all
  then have "style_id (ss ! k) \<noteq> style_id s" by (metis image_eqI)
  with 3 show ?case by (auto simp: view_def)
qed

lemma push_part_ids: "map style_id (push_part k p result) = map style_id result"
  by (induction k p result rule: push_part.induct) auto

lemma push_part_length: "length (push_part k p result) = length result"
  by (induction k p result rule: push_part.induct) auto

lemma push_part_nth_id:
  "j < length result \<Longrightarrow> style_id (push_part k p result ! j) = style_id (result ! j)"
  using push_part_ids[of k p result] by (metis nth_map push_part_length)

lemma index_inv_push: "index_inv result ns \<Longrightarrow> index_inv (push_part k p result) ns"
  by (auto simp: index_inv_def push_part_ids push_part_length push_part_nth_id)

lemma index_inv_new:
  assumes "index_inv result ns" "ns i = None"
  shows "index_inv (result @ [\<lparr>style_ref = r, style_id = i, parts = ps\<rparr>]) (ns(i \<mapsto> length result))"
    and "i \<notin> style_id ` set result"
proof -
  show notin: "i \<notin> style_id ` set result"
  proof
    assume "i \<in> style_id ` set result"
    then obtain k where "k < length result" "style_id (result ! k) = i"
      by (auto simp: in_set_conv_nth)
    with assms show False unfolding index_inv_def by (metis option.distinct(1))
  qed
  show "index_inv (result @ [\<lparr>style_ref = r, style_id = i, parts = ps\<rparr>]) (ns(i \<mapsto> length result))"
    using assms notin
    by (auto simp: index_inv_def nth_append less_Suc_eq)
qed

lemma loop_view:
  "index_inv result ns \<Longrightarrow>
   view (listToStyles_loop base rest result ns) = fold (\<lambda>it v. merge_item v it) rest (view result)"
proof (induction rest arbitrary: result ns)
  case Nil
  then show ?case by simp
next
  case (Cons it rest)
  obtain i c m sm where it: "it = (i, c, m, sm)" by (cases it) auto
  define p where "p = \<lparr>css = c, media = m, sourceMap = sm\<rparr>"
  have p: "part_of it = p" by (simp add: it part_of_def p_def)
  have fst_it: "fst it = i" by (simp add: it)
  show ?case
  proof (cases "ns i")
    case None
    define result' where
      "result' = result @ [\<lparr>style_ref = base + length result, style_id = i, parts = [p]\<rparr>]"
    define ns' where "ns' = ns(i \<mapsto> length result)"
    from index_inv_new[OF Cons.prems None]
    have inv': "index_inv result' ns'" and notin: "i \<notin> style_id ` set result"
      by (auto simp: result'_def ns'_def)
    from notin have "i \<notin> fst ` set (view result)" by (auto simp: view_def)
    then have step: "merge_item (view result) it = view result'"
      unfolding merge_item_def p fst_it by (simp add: view_def result'_def)
    have "listToStyles_loop base (it # rest) result ns = listToStyles_loop base rest result' ns'"
      by (simp add: it None result'_def ns'_def p_def)
    then show ?thesis
      using Cons.IH[OF inv'] by (simp add: step)
  next
    case (Some k)
    with Cons.prems have k: "k < length result" "style_id (result ! k) = i"
      and d: "distinct (map style_id result)"
      by (auto simp: index_inv_def)
    then have "i \<in> fst ` set (view result)"
      by (force simp: view_def in_set_conv_nth)
    then have step: "merge_item (view result) it = view (push_part k p result)"
      using push_part_view[OF k(1) d, of p] k(2)
      unfolding merge_item_def p fst_it by simp
    have "listToStyles_loop base (it # rest) result ns =
            listToStyles_loop base rest (push_part k p result) ns"
      by (simp add: it Some p_def)
    then show ?thesis
      using Cons.IH[OF index_inv_push[OF Cons.prems], of k p] by (simp add: step)
  qed
qed

lemma set_first_seen: "set (first_seen xs) = set xs"
  by (induction xs) auto

lemma first_seen_snoc:
  "first_seen (xs @ [x]) = (if x \<in> set xs then first_seen xs else first_seen xs @ [x])"
  by (induction xs) (auto simp: set_first_seen)

lemma grouped_spec_snoc: "grouped_spec (l @ [it]) = merge_item (grouped_spec l) it"
proof -
  have ids: "fst ` set (grouped_spec l) = fst ` set l"
    by (force simp: grouped_spec_def set_first_seen image_iff)
  show ?thesis
    unfolding merge_item_def ids
    by (auto simp: grouped_spec_def first_seen_snoc set_first_seen image_iff filter_empty_conv)
qed

lemma fold_merge_item: "fold (\<lambda>it v. merge_item v it) l [] = grouped_spec l"
proof (induction l rule: rev_induct)
  case Nil
  show ?case by (simp add: grouped_spec_def)
next
  case (snoc it l)
  then show ?case by (simp add: grouped_spec_snoc)
qed

text \<open>
  Claim C5. For every input list, the descriptors that \<open>listToStyles\<close> returns are, in
  order, the distinct ids in the order in which they first appear, and each descriptor
  holds the parts of all tuples with its id, in input order; so tuples sharing an id end
  up in one descriptor whose parts are their concatenation.
\<close>

theorem listToStyles_first_seen_order:
  "map (\<lambda>s. (style_id s, parts s)) (listToStyles base list) = grouped_spec list"
proof -
  have "index_inv [] Map.empty" by (simp add: index_inv_def)
  from loop_view[OF this, of base list] show ?thesis
    by (simp add: listToStyles_def view_def fold_merge_item)
qed

section \<open>The registry keeps id-colliding descriptors apart\<close>










section \<open>Blob-link mode\<close>

text \<open>
  Claim C9. The text that \<open>updateLink\<close> packs into the blob is the part's css passed
  through the URL fixer exactly when \<open>convertToAbsoluteUrls\<close> is true, or is undefined
  while the part has a source map; otherwise it is the css as given. With
  \<open>convertToAbsoluteUrls\<close> set to false the css is never passed through the fixer,
  source map or not. (The source-map comment is appended in both cases.)
\<close>

theorem updateLink_fixes_urls_iff:
  "objectUrls (hd (updateLink_steps e l opts ob st)) (nextUrl st) =
     Some ((if convertToAbsoluteUrls opts = Some True
               \<or> (convertToAbsoluteUrls opts = None \<and> truthy (sourceMap ob))
            then fixUrls e (css ob) else css ob) @ sourceMappingComment e (sourceMap ob)) \<and>
   objectUrls (hd (updateLink_steps e l (opts\<lparr>convertToAbsoluteUrls := Some False\<rparr>) ob st))
       (nextUrl st) =
     Some (css ob @ sourceMappingComment e (sourceMap ob))"
  by (simp add: updateLink_steps_def createObjectURL_def linkCss_def appliesFixUrls_def
      autoFixUrls_def Let_def)

text \<open>
  Claim C8. \<open>updateLink\<close> has three effects, in this order: the new object URL is
  created, it is assigned to the link's \<open>href\<close> while every earlier URL is still valid,
  and only then the previous \<open>href\<close> is revoked, and nothing is revoked when there was no
  previous \<open>href\<close>. After the update the \<open>href\<close> is the new URL; and when the link had
  an \<open>href\<close> before the update, it has one after each of the three effects.
\<close>

theorem updateLink_assigns_before_revoking:
  "\<exists>s1 s2 s3.
     updateLink_steps e l opts ob st = [s1, s2, s3] \<and>
     updateLink e l opts ob st = s3 \<and>
     objectUrls s1 = (objectUrls st)(nextUrl st \<mapsto> linkCss e opts ob) \<and> href s1 = href st \<and>
     href s2 l = Some (nextUrl st) \<and> objectUrls s2 = objectUrls s1 \<and>
     href s3 l = Some (nextUrl st) \<and>
     (case href st l of
        None \<Rightarrow> objectUrls s3 = objectUrls s2
      | Some old \<Rightarrow> objectUrls s3 = (objectUrls s2)(old := None)) \<and>
     (href st l \<noteq> None \<longrightarrow> href s1 l \<noteq> None \<and> href s2 l \<noteq> None \<and> href s3 l \<noteq> None)"
  by (auto simp: updateLink_def updateLink_steps_def createObjectURL_def revokeObjectURL_def
      Let_def split: option.splits)

lemma linked_page_href: "href linked_page 4 = Some 0 \<and> nextUrl linked_page = 1"
  by (simp add: linked_page_def run_defs)

theorem updateLink_assigns_before_revoking_witness:
  "href linked_page 4 \<noteq> None \<and>
   href (updateLink browser 4 top_options blue_part linked_page) 4 = Some 1 \<and>
   objectUrls (updateLink browser 4 top_options blue_part linked_page) 0 = None \<and>
   objectUrls (updateLink browser 4 top_options blue_part linked_page) 1
     = Some (linkCss browser top_options blue_part)"
  using updateLink_assigns_before_revoking[of browser 4 top_options blue_part linked_page]
    linked_page_href
  by auto

section \<open>Insertion at top\<close>

lemma getElement_memoized:
  "getElement e sel st = (r, st1) \<Longrightarrow> getElement_memo st1 sel = Some r"
  by (auto simp: getElement_def split: option.splits)

lemma getElement_frame:
  "getElement e sel st = (r, st1) \<Longrightarrow>
     parentNode st1 = parentNode st \<and> childNodes st1 = childNodes st \<and>
     styleElementsInsertedAtTop st1 = styleElementsInsertedAtTop st"
  by (auto simp: getElement_def split: option.splits)

text \<open>
  Claim C1, as amended. In a session whose top-insertion list is empty, with \<open>insertAt\<close>
  \<open>"top"\<close>, inserting the new elements A and then B into the same resolved target gives
  the target the children A, B and then its original children: the later element comes
  directly after the earlier one, and both come before the original children.
\<close>

theorem insert_at_top_keeps_insertion_order:
  assumes top: "styleElementsInsertedAtTop st = []" "insertAt opts = Some ''top''"
    and target: "fst (getElement e (selector_of (insertInto opts)) st) = Some t"
    and fresh: "parentNode st a = None" "parentNode st b = None" "a \<noteq> b" "a \<noteq> t" "b \<noteq> t"
      "a \<notin> set (childNodes st t)" "b \<notin> set (childNodes st t)"
    and kids: "\<forall>c \<in> set (childNodes st t). parentNode st c = Some t"
  shows "\<exists>st1 st2. insertStyleElement e opts a st = Inr st1 \<and>
           insertStyleElement e opts b st1 = Inr st2 \<and>
           childNodes st2 t = a # b # childNodes st t"
proof -
  obtain st0 where g: "getElement e (selector_of (insertInto opts)) st = (Some t, st0)"
    using target by (cases "getElement e (selector_of (insertInto opts)) st") auto
  note f0 = getElement_frame[OF g]
  define st1 where "st1 = (st0\<lparr>parentNode := (parentNode st0)(a \<mapsto> t),
      childNodes := (childNodes st0)(t := a # childNodes st t)\<rparr>)
        \<lparr>styleElementsInsertedAtTop := [a]\<rparr>"
  have ins1: "insertStyleElement e opts a st = Inr st1"
  proof (cases "childNodes st t")
    case Nil
    then show ?thesis
      using g f0 top fresh
      by (simp add: insertStyleElement_def last_of_def firstChild_def insertBefore_def
          appendChild_def detach_def st1_def)
  next
    case (Cons c cs)
    with kids have "parentNode st c = Some t" by simp
    with Cons show ?thesis
      using g f0 top fresh
      by (simp add: insertStyleElement_def last_of_def firstChild_def insertBefore_def
          detach_def st1_def)
  qed
  have g1: "getElement e (selector_of (insertInto opts)) st1 = (Some t, st1)"
    using getElement_memoized[OF g] by (simp add: getElement_def st1_def)
  define st2 where "st2 = (st1\<lparr>parentNode := (parentNode st1)(b \<mapsto> t),
      childNodes := (childNodes st1)(t := a # b # childNodes st t)\<rparr>)
        \<lparr>styleElementsInsertedAtTop := [a, b]\<rparr>"
  have ins2: "insertStyleElement e opts b st1 = Inr st2"
  proof (cases "childNodes st t")
    case Nil
    then show ?thesis
      using g1 f0 top fresh
      by (simp add: insertStyleElement_def last_of_def nextSibling_def
          appendChild_def detach_def st1_def st2_def)
  next
    case (Cons c cs)
    with kids fresh have "parentNode st c = Some t" "c \<noteq> a" "c \<noteq> b" by auto
    with Cons show ?thesis
      using g1 f0 top fresh
      by (simp add: insertStyleElement_def last_of_def nextSibling_def insertBefore_def
          detach_def st1_def st2_def)
  qed
  have "childNodes st2 t = a # b # childNodes st t" by (simp add: st2_def)
  with ins1 ins2 show ?thesis by blast
qed

theorem insert_at_top_witness:
  "styleElementsInsertedAtTop two_elements = [] \<and>
   (\<exists>st1 st2. insertStyleElement browser top_options 2 two_elements = Inr st1 \<and>
      insertStyleElement browser top_options 3 st1 = Inr st2 \<and>
      childNodes st2 0 = 2 # 3 # childNodes two_elements 0)"
  using insert_at_top_keeps_insertion_order[of two_elements top_options browser 0 2 3]
  by (simp add: run_defs)

text \<open>
  The claim as stated fails: on the page whose head has the one child 1, inserting the
  new elements 2 and then 3 at top gives the head the children 2, 3, 1, not 3, 2, 1.
\<close>

theorem insert_at_top_later_first_counterexample:
  "\<not> isl two_top_insertions \<and>
   childNodes (projr two_top_insertions) 0 = [2, 3, 1] \<and>
   childNodes (projr two_top_insertions) 0 \<noteq> [3, 2, 1]"
  by (simp add: run_defs)

section \<open>Frame lemmas\<close>

lemma attachTagAttrs_eq:
  "attachTagAttrs el as st =
     st\<lparr>attributes := (attributes st)
          (el := fold (\<lambda>kv. put_attr (fst kv) (snd kv)) as (attributes st el))\<rparr>"
  unfolding attachTagAttrs_def
  by (induction as arbitrary: st) (simp_all add: setAttribute_def)

lemma insertStyleElement_Inr:
  assumes "insertStyleElement e opts el st = Inr st'" "parentNode st el = None"
  shows "\<exists>t. fst (getElement e (selector_of (insertInto opts)) st) = Some t \<and>
           tree_frame st st' \<and> parentNode st' = (parentNode st)(el \<mapsto> t) \<and>
           (\<forall>x. x \<noteq> t \<longrightarrow> childNodes st' x = childNodes st x)"
  using assms
  by (auto simp: insertStyleElement_def getElement_def insertBefore_def appendChild_def
      detach_def tree_frame_def Let_def
      split: option.splits if_splits prod.splits sum.splits)


lemma getElement_fst_cong:
  "getElement_memo st1 = getElement_memo st \<Longrightarrow>
   fst (getElement e sel st1) = fst (getElement e sel st)"
  by (simp add: getElement_def split: option.splits)

lemma createStyleElement_Inr:
  assumes "createStyleElement e opts st = Inr (el, st')"
    and "fst (getElement e (selector_of (insertInto opts)) st) \<noteq> Some (nextRef st)"
  shows "el = nextRef st \<and> nextRef st' = Suc (nextRef st) \<and>
         styleSheet st' = (styleSheet st)(el := if styleSheetSupport e then Some [] else None) \<and>
         childNodes st' el = [] \<and> parentNode st' el \<noteq> None \<and>
         textStore st' = textStore st \<and> singletonCounter st' = singletonCounter st \<and>
         singletonElement st' = singletonElement st \<and> handles st' = handles st \<and>
         (\<forall>x. x \<noteq> el \<longrightarrow> parentNode st' x = parentNode st x)"
proof -
  from assms(1) obtain a where a: "attrs opts = Some a"
    by (auto simp: createStyleElement_def createElement_def Let_def split: option.splits)
  define st3 where "st3 = attachTagAttrs (nextRef st)
      (put_attr ''type'' ''text/css'' (attrsObj st a))
      (snd (createElement e ''style'' st)\<lparr>attrsObj := (attrsObj st)
          (a := put_attr ''type'' ''text/css'' (attrsObj st a))\<rparr>)"
  from assms(1) a have el: "el = nextRef st"
    and ins: "insertStyleElement e opts (nextRef st) st3 = Inr st'"
    by (auto simp: createStyleElement_def createElement_def Let_def st3_def split: sum.splits)
  have p: "parentNode st3 (nextRef st) = None"
    by (simp add: st3_def attachTagAttrs_eq createElement_def Let_def)
  have memo: "getElement_memo st3 = getElement_memo st"
    by (simp add: st3_def attachTagAttrs_eq createElement_def Let_def)
  from insertStyleElement_Inr[OF ins p] obtain t where
    t: "fst (getElement e (selector_of (insertInto opts)) st3) = Some t"
    and fr: "tree_frame st3 st'" and pn: "parentNode st' = (parentNode st3)(nextRef st \<mapsto> t)"
    and cn: "\<forall>x. x \<noteq> t \<longrightarrow> childNodes st' x = childNodes st3 x"
    by blast
  from t assms(2) have "t \<noteq> nextRef st"
    by (auto simp: getElement_fst_cong[OF memo])
  with cn have "childNodes st' (nextRef st) = childNodes st3 (nextRef st)" by simp
  then show ?thesis
    using fr pn el
    by (simp add: tree_frame_def st3_def attachTagAttrs_eq createElement_def Let_def)
qed





lemma parentNode_detach [simp]: "parentNode (detach n st) = (parentNode st)(n := None)"
  by (auto simp: detach_def split: option.splits)

lemma parentNode_appendChild [simp]: "parentNode (appendChild p n st) = (parentNode st)(n \<mapsto> p)"
  by (simp add: appendChild_def Let_def)






















section \<open>Singleton mode\<close>

lemma addStyle_singleton_existing:
  assumes "singleton opts = Some True" "singletonElement st = Some el"
    "addStyle e p opts st = Inr (h, st')"
  shows "strategy (handles st' h) = SingletonTag el (singletonCounter st)"
  using assms
  by (auto simp: addStyle_def choose_strategy_def Let_def split: sum.splits)

text \<open>
  Claim C7. In singleton mode, starting with no shared element, the counter at 0 and an
  empty text store, two parts are added; they get the slots 0 and 1 of one element.
  Removing the part at slot 0 leaves the element showing exactly the css of the part at
  slot 1: in the \<open>styleSheet\<close> path the slot is overwritten with the empty string (not
  deleted) and dropped from the join; the counter stays at 2, and the next part added gets
  slot 2, not the slot that was freed.
\<close>

theorem singleton_removal_keeps_other_slot:
  assumes sing: "singleton opts = Some True"
    and fresh: "singletonElement st = None" "singletonCounter st = 0" "textStore st = []"
    and target: "fst (getElement e (selector_of (insertInto opts)) st) \<noteq> Some (nextRef st)"
    and added: "add_parts e [p0, p1] opts st = Inr (hs, st2)"
  shows "\<exists>h0 h1 el st3.
           hs = [h0, h1] \<and>
           strategy (handles st2 h0) = SingletonTag el 0 \<and>
           strategy (handles st2 h1) = SingletonTag el 1 \<and>
           updateStyle e h0 None st2 = Inr st3 \<and>
           rendered st3 el = css p1 \<and>
           (styleSheetSupport e \<longrightarrow> textStore st3 = [Some [], Some (css p1)]) \<and>
           singletonCounter st3 = 2 \<and>
           (\<forall>p2 h2 st4. addStyle e p2 opts st3 = Inr (h2, st4) \<longrightarrow>
              strategy (handles st4 h2) = SingletonTag el 2)"
proof -
  define sa where "sa = st\<lparr>singletonCounter := Suc 0\<rparr>"
  define n where "n = nextRef st"
  from added sing fresh obtain el sb where
    cr: "createStyleElement e opts sa = Inr (el, sb)"
    by (auto simp: addStyle_def choose_strategy_def sa_def Let_def split: sum.splits)
  have tg: "fst (getElement e (selector_of (insertInto opts)) sa) \<noteq> Some (nextRef sa)"
    using target getElement_fst_cong[of sa st e] by (simp add: sa_def)
  note r = createStyleElement_Inr[OF cr tg]
  have el: "el = n" using r by (simp add: sa_def n_def)
  have facts: "nextRef sb = Suc n"
    "styleSheet sb n = (if styleSheetSupport e then Some [] else None)"
    "childNodes sb n = []" "textStore sb = []" "singletonCounter sb = Suc 0"
    using r fresh by (auto simp: sa_def n_def)
  obtain st3 where
    st3: "length hs = 2"
      "strategy (handles st2 (hd hs)) = SingletonTag n 0"
      "strategy (handles st2 (hd (tl hs))) = SingletonTag n 1"
      "updateStyle e (hd hs) None st2 = Inr st3"
      "rendered st3 n = css p1"
      "styleSheetSupport e \<longrightarrow> textStore st3 = [Some [], Some (css p1)]"
      "singletonCounter st3 = 2" "singletonElement st3 = Some n"
  proof (cases "styleSheetSupport e")
    case True
    with added sing fresh cr facts el that show ?thesis
      by (auto simp: addStyle_def choose_strategy_def sa_def[symmetric] Let_def
          applyToSingletonTag_def replaceText_def store_at_def updateStyle_def rendered_def
          split: sum.splits)
  next
    case False
    with added sing fresh cr facts el that show ?thesis
      by (auto simp: addStyle_def choose_strategy_def sa_def[symmetric] Let_def
          applyToSingletonTag_def updateStyle_def rendered_def textContent_def
          createTextNode_def insertBefore_def appendChild_def detach_def removeChild_def
          split: sum.splits)
  qed
  have next_index: "strategy (handles st4 h2) = SingletonTag n 2"
    if "addStyle e p2 opts st3 = Inr (h2, st4)" for p2 h2 st4
    using addStyle_singleton_existing[OF sing st3(8) that] st3(7) by simp
  from st3 next_index show ?thesis
    by (intro exI[of _ "hd hs"] exI[of _ "hd (tl hs)"] exI[of _ n] exI[of _ st3])
      (auto simp: length_Suc_conv numeral_2_eq_2)
qed


theorem singleton_removal_witness:
  "singleton singleton_options = Some True \<and>
   singletonElement singleton_page = None \<and>
   \<not> isl two_singleton_parts \<and>
   (\<exists>h0 h1 st3.
      fst (projr two_singleton_parts) = [h0, h1] \<and>
      updateStyle browser h0 None (snd (projr two_singleton_parts)) = Inr st3 \<and>
      rendered st3 3 = css part_b \<and> singletonCounter st3 = 2)"
proof -
  have run: "two_singleton_parts =
      Inr (fst (projr two_singleton_parts), snd (projr two_singleton_parts))"
    by (simp add: two_singleton_parts_def singleton_options_def singleton_page_def
        singleton_request_def part_a_def part_b_def run_defs)
  have el: "strategy (handles (snd (projr two_singleton_parts)) (hd (fst (projr two_singleton_parts))))
      = SingletonTag 3 0"
    by (simp add: two_singleton_parts_def singleton_options_def singleton_page_def
        singleton_request_def part_a_def part_b_def run_defs)
  have pre: "singleton singleton_options = Some True" "singletonElement singleton_page = None"
    "singletonCounter singleton_page = 0" "textStore singleton_page = []"
    "fst (getElement browser (selector_of (insertInto singleton_options)) singleton_page)
       \<noteq> Some (nextRef singleton_page)"
    by (simp_all add: singleton_options_def singleton_page_def singleton_request_def run_defs)
  from singleton_removal_keeps_other_slot[OF pre run[unfolded two_singleton_parts_def]]
  obtain h0 h1 el st3 where
    r: "fst (projr two_singleton_parts) = [h0, h1]"
      "strategy (handles (snd (projr two_singleton_parts)) h0) = SingletonTag el 0"
      "updateStyle browser h0 None (snd (projr two_singleton_parts)) = Inr st3"
      "rendered st3 el = css part_b" "singletonCounter st3 = 2"
    unfolding two_singleton_parts_def[symmetric] by blast
  from r(1,2) el have "el = 3" by simp
  with r have "\<exists>h0 h1 st3.
      fst (projr two_singleton_parts) = [h0, h1] \<and>
      updateStyle browser h0 None (snd (projr two_singleton_parts)) = Inr st3 \<and>
      rendered st3 3 = css part_b \<and> singletonCounter st3 = 2"
    by blast
  moreover from run have "\<not> isl two_singleton_parts" by (metis sum.disc(2))
  ultimately show ?thesis using pre(1,2) by simp
qed

section \<open>Refreshing a tracked module with fewer parts\<close>







section \<open>Updating with an identical list\<close>

text \<open>
  Claim C4 at the failing input: one inline part is installed (style element 4, entry 7
  for descriptor 3) and the update closure is called with a field-wise identical list.
  The call does not reach the handle of element 4: the new descriptor 8 is a different
  object, so a new style element 9 is created and inserted, element 4 is removed, and the
  old entry's \<open>refs\<close> ends at 0 instead of being restored to 1.
\<close>

theorem identical_update_recreates_element:
  "\<not> isl red_installed \<and> \<not> isl red_updated \<and>
   childNodes (snd (projr red_installed)) 0 = [1, 4] \<and>
   refs (domStyles (snd (projr red_installed)) 7) = 1 \<and>
   childNodes (projr red_updated) 0 = [1, 9] \<and>
   parentNode (projr red_updated) 4 = None \<and>
   refs (domStyles (projr red_updated) 7) = 0 \<and>
   cache (projr red_updated) 1 = Some [(3, 7), (8, 12)]"
  by (simp add: red_updated_def red_installed_def red_list_def run_defs)

section \<open>When the entry point throws\<close>








lemma resolves_after:
  "gm sel = Some r \<Longrightarrow> resolves e sel (st\<lparr>getElement_memo := gm\<rparr>) = r"
  by (simp add: resolves_def getElement_def)




























lemma add_parts_fails:
  "addStyle e p opts st = Inl err \<Longrightarrow> add_parts e (p # ps) opts st = Inl err"
  by simp













section \<open>Teardown after several installs\<close>





text \<open>Dropping the references of a module and removing its entries.\<close>

lemma get_domStyles_update [simp]:
  "stylesInDom_get (st\<lparr>domStyles := f\<rparr>) s = stylesInDom_get st s"
  by (simp add: stylesInDom_get_def)



lemma elem_cache [simp]: "elem (st\<lparr>cache := c\<rparr>) = elem st"
  by (simp add: elem_def fun_eq_iff)

lemma elem_domStyles [simp]: "elem (st\<lparr>domStyles := f\<rparr>) = elem st"
  by (simp add: elem_def fun_eq_iff)

lemma elements_ok_cache [simp]: "elements_ok lo lou (st\<lparr>cache := c\<rparr>) H = elements_ok lo lou st H"
  by (simp add: elements_ok_def good_handle_def)

lemma elements_ok_domStyles [simp]:
  "elements_ok lo lou (st\<lparr>domStyles := f\<rparr>) H = elements_ok lo lou st H"
  by (simp add: elements_ok_def good_handle_def)

































end
